theory Spec2Isabelle
  imports Main
begin

section \<open>React element trees\<close>

text \<open>
  Both components of the frontend are functions that return a JSX expression. A JSX
  expression denotes a tree of React elements: each element has a type (a host tag such as
  \<open>div\<close> or an imported component such as \<open>Card\<close>), an optional key, its props in the order
  they are written, and its children. The components imported from other modules
  (\<open>Button\<close>, \<open>Card\<close>, \<open>Link\<close>, \<open>Providers\<close>) stay unexpanded element nodes, exactly as in the
  value the function returns.

  A prop is written either as a string (\<open>variant="glass"\<close>) or bare (\<open>hover\<close>), which is the
  boolean \<open>true\<close>. A child is a piece of text, an element, or an array of children (the
  result of \<open>features.map\<close>). JSX text follows the JSX whitespace rule: a line break with the
  blanks around it is dropped, blanks inside a line are kept. Comments
  \<open>{/* ... */}\<close> are empty expressions and contribute no child.

  Strings are the bytes of the UTF-8 source text, so a character outside ASCII is written
  as its bytes.
\<close>

datatype prop_value = PStr string | PBool bool

datatype jsx =
    Text string
  | Elem string "nat option" "(string \<times> prop_value) list" "jsx list"
  | Arr "jsx list"

subsection \<open>Observing a tree\<close>

text \<open>The type of an element, its children, and one of its props.\<close>

fun tag :: "jsx \<Rightarrow> string option" where
  "tag (Elem t k ps cs) = Some t"
| "tag (Text s) = None"
| "tag (Arr cs) = None"

fun children_of :: "jsx \<Rightarrow> jsx list" where
  "children_of (Elem t k ps cs) = cs"
| "children_of (Text s) = []"
| "children_of (Arr cs) = cs"

fun attr :: "string \<Rightarrow> jsx \<Rightarrow> prop_value option" where
  "attr a (Elem t k ps cs) = map_of ps a"
| "attr a (Text s) = None"
| "attr a (Arr cs) = None"

text \<open>The node reached by following child positions from the root.\<close>

fun child_at :: "nat list \<Rightarrow> jsx \<Rightarrow> jsx option" where
  "child_at [] n = Some n"
| "child_at (i # path) n =
     (if i < length (children_of n) then child_at path (children_of n ! i) else None)"

text \<open>The pieces of text below a node, in document order.\<close>

fun texts :: "jsx \<Rightarrow> string list" where
  "texts (Text s) = [s]"
| "texts (Elem t k ps cs) = concat (map texts cs)"
| "texts (Arr cs) = concat (map texts cs)"

text \<open>All elements of a given type in a tree, in document order.\<close>

fun elems_of :: "string \<Rightarrow> jsx \<Rightarrow> jsx list" where
  "elems_of t (Text s) = []"
| "elems_of t (Elem u k ps cs) =
     (if u = t then [Elem u k ps cs] else []) @ concat (map (elems_of t) cs)"
| "elems_of t (Arr cs) = concat (map (elems_of t) cs)"

section \<open>The landing page\<close>

record feature =
  icon :: string
  title :: string
  description :: string

text \<open>The array \<open>features\<close>, a constant local to \<open>LandingPage\<close>.\<close>

definition features :: "feature list" where
  "features =
    [ \<lparr> icon = [CHR 0xF0, CHR 0x9F, CHR 0x93, CHR 0x8B],
        title = ''Program Kerja Terpadu'',
        description = ''Kelola program kerja dengan Kanban board interaktif dan drag-drop'' \<rparr>,
      \<lparr> icon = [CHR 0xF0, CHR 0x9F, CHR 0x93, CHR 0x85],
        title = ''Kalender Kerja Terintegrasi'',
        description = ''Sinkronisasi otomatis dengan Google Calendar untuk jadwal OSIS'' \<rparr>,
      \<lparr> icon = [CHR 0xF0, CHR 0x9F, CHR 0x93, CHR 0x81],
        title = ''E-Library Dokumen'',
        description = ''Penyimpanan digital untuk SK, LPJ, dan notulensi rapat'' \<rparr>,
      \<lparr> icon = [CHR 0xF0, CHR 0x9F, CHR 0x92, CHR 0xB0],
        title = ''Modul Keuangan Transparan'',
        description = ''Dashboard keuangan dengan laporan real-time dari Google Sheets'' \<rparr>,
      \<lparr> icon = [CHR 0xF0, CHR 0x9F, CHR 0x91, CHR 0xA5],
        title = ''Manajemen Multi-Role'',
        description = ''Kontrol akses untuk Ketua, Bendahara, Sekretaris, dan Anggota'' \<rparr>,
      \<lparr> icon = [CHR 0xF0, CHR 0x9F, CHR 0x93, CHR 0x8A],
        title = ''Dashboard Analitik'',
        description = ''Visualisasi data dengan grafik dan statistik real-time'' \<rparr> ]"

text \<open>
  The body of the arrow function given to \<open>features.map\<close>: one \<open>Card\<close> for the feature at
  position \<open>index\<close>, keyed by that position.
\<close>

definition feature_card :: "feature \<Rightarrow> nat \<Rightarrow> jsx" where
  "feature_card feature index =
     Elem ''Card'' (Some index)
       [(''variant'', PStr ''glass''), (''hover'', PBool True), (''className'', PStr ''p-8'')]
       [ Elem ''div'' None [(''className'', PStr ''text-4xl mb-4'')] [Text (icon feature)],
         Elem ''h3'' None [(''className'', PStr ''text-xl font-bold text-secondary-900 mb-3'')]
           [Text (title feature)],
         Elem ''p'' None [(''className'', PStr ''text-secondary-600'')]
           [Text (description feature)] ]"

text \<open>
  \<open>LandingPage\<close> takes no props, reads no state and calls no hook; its argument is the
  empty input.
\<close>

definition LandingPage :: "unit \<Rightarrow> jsx" where
  "LandingPage u =
   Elem ''div'' None
     [(''className'', PStr ''min-h-screen bg-gradient-to-br from-primary-50 via-white to-secondary-50'')]
     [ Elem ''nav'' None
         [(''className'', PStr ''sticky top-0 z-50 bg-white/80 backdrop-blur-md border-b border-secondary-200'')]
         [ Elem ''div'' None
             [(''className'', PStr ''max-w-7xl mx-auto px-4 sm:px-6 lg:px-8 py-4 flex items-center justify-between'')]
             [ Elem ''div'' None [(''className'', PStr ''text-2xl font-bold text-primary-600'')]
                 [Text ([CHR 0xF0, CHR 0x9F, CHR 0x8E, CHR 0xAF] @ '' OSIS Manager'')],
               Elem ''Link'' None [(''href'', PStr ''/login'')]
                 [Elem ''Button'' None [(''variant'', PStr ''primary'')] [Text ''Login'']] ] ],
       Elem ''section'' None
         [(''className'', PStr ''max-w-7xl mx-auto px-4 sm:px-6 lg:px-8 py-24'')]
         [ Elem ''div'' None [(''className'', PStr ''text-center animate-fade-in'')]
             [ Elem ''h1'' None
                 [(''className'', PStr ''text-5xl md:text-6xl font-bold text-secondary-900 mb-6 leading-tight'')]
                 [ Text ''Sistem Manajemen OSIS '',
                   Elem ''br'' None [] [],
                   Elem ''span'' None [(''className'', PStr ''text-primary-600'')]
                     [Text ''Modern & Profesional''] ],
               Elem ''p'' None
                 [(''className'', PStr ''text-xl text-secondary-600 mb-8 max-w-2xl mx-auto'')]
                 [Text ''Platform SaaS untuk mengelola organisasi sekolah dengan kemudahan tinggi, integrasi Google, dan desain yang inspiratif.''],
               Elem ''div'' None [(''className'', PStr ''flex gap-4 justify-center flex-wrap'')]
                 [ Elem ''Link'' None [(''href'', PStr ''/login'')]
                     [Elem ''Button'' None [(''size'', PStr ''lg''), (''variant'', PStr ''primary'')]
                        [Text ''Mulai Sekarang'']],
                   Elem ''Button'' None [(''size'', PStr ''lg''), (''variant'', PStr ''secondary'')]
                     [Text ''Pelajari Lebih Lanjut''] ] ],
           Elem ''div'' None [(''className'', PStr ''mt-16 rounded-2xl overflow-hidden shadow-2xl'')]
             [ Elem ''div'' None
                 [(''className'', PStr ''bg-gradient-to-br from-primary-500 to-primary-600 aspect-video flex items-center justify-center'')]
                 [ Elem ''div'' None [(''className'', PStr ''text-center text-white'')]
                     [ Elem ''div'' None [(''className'', PStr ''text-7xl mb-4'')]
                         [Text [CHR 0xF0, CHR 0x9F, CHR 0x93, CHR 0x8A]],
                       Elem ''p'' None [(''className'', PStr ''text-2xl font-bold'')]
                         [Text ''Dashboard Preview''] ] ] ] ],
       Elem ''section'' None
         [(''className'', PStr ''max-w-7xl mx-auto px-4 sm:px-6 lg:px-8 py-24'')]
         [ Elem ''h2'' None
             [(''className'', PStr ''text-4xl font-bold text-center text-secondary-900 mb-16'')]
             [Text ''Fitur Unggulan''],
           Elem ''div'' None [(''className'', PStr ''grid md:grid-cols-2 lg:grid-cols-3 gap-8'')]
             [Arr (map (\<lambda>(index, feature). feature_card feature index)
                       (List.enumerate 0 features))] ],
       Elem ''section'' None
         [(''className'', PStr ''bg-gradient-to-r from-primary-600 to-primary-500 py-16'')]
         [ Elem ''div'' None [(''className'', PStr ''max-w-4xl mx-auto text-center px-4'')]
             [ Elem ''h2'' None [(''className'', PStr ''text-4xl font-bold text-white mb-6'')]
                 [Text ''Siap Mengubah Cara Kalian Mengelola OSIS?''],
               Elem ''p'' None [(''className'', PStr ''text-primary-100 mb-8 text-lg'')]
                 [Text ''Bergabunglah dengan ribuan sekolah yang sudah menggunakan OSIS Manager''],
               Elem ''Link'' None [(''href'', PStr ''/login'')]
                 [Elem ''Button'' None [(''size'', PStr ''lg''), (''variant'', PStr ''secondary'')]
                    [Text ''Mulai Trial Gratis'']] ] ],
       Elem ''footer'' None [(''className'', PStr ''bg-secondary-900 text-secondary-300 py-8'')]
         [ Elem ''div'' None [(''className'', PStr ''max-w-7xl mx-auto px-4 text-center'')]
             [ Elem ''p'' None []
                 [Text ([CHR 0xC2, CHR 0xA9] @ '' 2024 OSIS Manager. All rights reserved. Made with ''
                        @ [CHR 0xE2, CHR 0x9D, CHR 0xA4, CHR 0xEF, CHR 0xB8, CHR 0x8F]
                        @ '' for Indonesian Students.'')] ] ] ]"

section \<open>The root layout\<close>

text \<open>The two fields of \<open>Metadata\<close> that the layout sets.\<close>

record Metadata =
  title :: string
  description :: string

definition metadata :: Metadata where
  "metadata =
     \<lparr> title = ''OSIS Management System'',
       description = ''Sistem Manajemen Organisasi Sekolah Modern'' \<rparr>"

definition RootLayout :: "jsx \<Rightarrow> jsx" where
  "RootLayout children =
     Elem ''html'' None [(''lang'', PStr ''id''), (''suppressHydrationWarning'', PBool True)]
       [ Elem ''body'' None []
           [ Elem ''Providers'' None [] [children] ] ]"

section \<open>Properties\<close>

text \<open>
  Claim C9. \<open>LandingPage\<close> has no input and no state, so every render returns the same
  page. The page contains exactly six \<open>Card\<close> elements, as many as \<open>features\<close> has
  entries; read in document order, the cards correspond to the entries of \<open>features\<close> in
  their declaration order, and the text shown in each card is that entry's icon, then its
  title, then its description.
\<close>

theorem LandingPage_feature_cards:
  "LandingPage u = LandingPage ()
   \<and> length features = 6
   \<and> length (elems_of ''Card'' (LandingPage u)) = 6
   \<and> map texts (elems_of ''Card'' (LandingPage u))
       = map (\<lambda>f. [feature.icon f, feature.title f, feature.description f]) features"
  by (simp add: LandingPage_def features_def feature_card_def enumerate_eq_zip upt_rec)

text \<open>
  Claim C10. For every value of \<open>children\<close>, \<open>RootLayout\<close> returns an \<open>html\<close> element whose
  \<open>lang\<close> is \<open>id\<close>; its only child is \<open>body\<close>, whose only child is the \<open>Providers\<close>
  element, whose only child is \<open>children\<close> itself, unchanged. The exported \<open>metadata\<close> is a
  constant with the title \<open>OSIS Management System\<close>.
\<close>

theorem RootLayout_wraps_children:
  "tag (RootLayout children) = Some ''html''
   \<and> attr ''lang'' (RootLayout children) = Some (PStr ''id'')
   \<and> map tag (children_of (RootLayout children)) = [Some ''body'']
   \<and> child_at [0, 0] (RootLayout children) = Some (Elem ''Providers'' None [] [children])
   \<and> child_at [0, 0, 0] (RootLayout children) = Some children
   \<and> Metadata.title metadata = ''OSIS Management System''"
  by (simp add: RootLayout_def metadata_def)

end
